theory Spec2Isabelle
  imports Complex_Main
begin

section \<open>Windowed video export: a model of \<^verbatim>\<open>video_exporter.py\<close>\<close>

text \<open>
  The development follows \<^verbatim>\<open>pupil_src/shared_modules/video_exporter.py\<close>: the generator
  \<^verbatim>\<open>export_processed_h264\<close> and the plugin class \<^verbatim>\<open>VideoExporter\<close>.

  Conventions of the embedding:
  \<^item> Python floats (timestamps, progress values) are exact rationals; \<^verbatim>\<open>.1\<close> is \<open>1/10\<close>.
  \<^item> Python exceptions are values of the type \<open>exception\<close>.
  \<^item> A generator is represented by the list of everything it yields when it is run to
    exhaustion, together with the exception that ended it, if any.
  \<^item> Frame indices are positions in a timestamp sequence, hence natural numbers; the
    arithmetic of the progress expression is done on integers, as Python does it.
  \<^item> Decoded images are values of a type parameter \<open>'img\<close>.
\<close>

datatype exception =
  EndofVideoError | ZeroDivisionError | IndexError | KeyError | FileNotFoundError

type_synonym progress_event = "string \<times> rat"

subsection \<open>The frame source (\<^verbatim>\<open>video_capture.File_Source\<close>)\<close>

record Frame =
  timestamp :: rat
  index :: nat

record File_Source =
  initialised :: bool
  timestamps :: "rat list"
  frame_size :: "nat \<times> nat"
  target_frame_idx :: nat
  current_frame_idx :: nat

text \<open>Modelled from the spec: \<^verbatim>\<open>File_Source.seek_to_frame\<close> of the module
  \<^verbatim>\<open>video_capture\<close>, whose source is not at hand. The spec's Frame Source Adapter has
  a seek-to-index operation that repositions the internal decode cursor.
\<close>

definition seek_to_frame :: "nat \<Rightarrow> File_Source \<Rightarrow> File_Source" where
  "seek_to_frame seek_pos c = c\<lparr>target_frame_idx := seek_pos\<rparr>"

text \<open>Modelled from the spec: \<^verbatim>\<open>File_Source.get_frame\<close> of the module
  \<^verbatim>\<open>video_capture\<close>, whose source is not at hand. The spec's adapter retrieves frames
  sequentially; a frame carries its index (its position in the source timestamp
  sequence) and its timestamp; asking for a frame past the last valid index is the
  end-of-stream condition (\<^verbatim>\<open>EndofVideoError\<close>). The adapter tracks its current index:
  the index of the frame it delivered last.
\<close>

definition get_frame :: "File_Source \<Rightarrow> exception + (Frame \<times> File_Source)" where
  "get_frame c =
     (let i = target_frame_idx c in
      if i < length (timestamps c)
      then Inr (\<lparr>timestamp = timestamps c ! i, index = i\<rparr>,
                c\<lparr>target_frame_idx := i + 1, current_frame_idx := i\<rparr>)
      else Inl EndofVideoError)"

subsection \<open>The encoder side (\<^verbatim>\<open>av\<close>)\<close>

text \<open>
  The output stream with the settings of lines 62 to 66, the reusable frame buffer
  \<^verbatim>\<open>av_frame\<close> as it is handed to \<^verbatim>\<open>video_stream.encode\<close>, and the output container.
  The codec's internal buffering is not modelled: the container lists, in order, the
  frames that were handed to the encoder; the flush loop of lines 101 to 106 moves
  whatever the encoder still holds into the container.
\<close>

record video_stream =
  codec_name :: string
  rate :: rat
  bit_rate :: rat
  bit_rate_tolerance :: rat
  thread_count :: nat
  width :: nat
  height :: nat

record 'img VideoFrame =
  plane :: 'img
  pts :: int
  frame_time_base :: rat

record 'img container =
  file_loc :: string
  stream :: video_stream
  frames :: "'img VideoFrame list"
  closed :: bool

subsection \<open>The re-encode pipeline (\<^verbatim>\<open>export_processed_h264\<close>)\<close>

text \<open>
  What the generator takes from its surroundings: the constructor of \<^verbatim>\<open>File_Source\<close>
  applied to a path, the range resolution \<^verbatim>\<open>pm.find_closest(capture.timestamps,
  pm.exact_window(world_timestamps, export_range))\<close> of the module \<^verbatim>\<open>player_methods\<close>,
  and \<^verbatim>\<open>mp.cpu_count()\<close>. They are parameters of the model.
\<close>

record environment =
  open_File_Source :: "string \<Rightarrow> File_Source"
  find_closest_exact_window :: "rat list \<Rightarrow> rat list \<Rightarrow> nat \<times> nat \<Rightarrow> nat \<times> nat"
  cpu_count :: nat

definition update_rate :: nat where
  "update_rate = 10"

definition time_base :: rat where
  "time_base = Fract 1 65535"

text \<open>Python's \<^verbatim>\<open>int(x)\<close> on a float truncates towards zero.\<close>

definition py_int :: "rat \<Rightarrow> int" where
  "py_int x = (if 0 \<le> x then \<lfloor>x\<rfloor> else \<lceil>x\<rceil>)"

text \<open>
  Lines 94 to 97: \<^verbatim>\<open>((current_frame_idx - export_from_index) / (export_to_index -
  export_from_index)) * .9 + .1\<close>. Python raises \<^verbatim>\<open>ZeroDivisionError\<close> on a zero divisor.
\<close>

definition progress_expr :: "nat \<Rightarrow> nat \<Rightarrow> nat \<Rightarrow> exception + rat" where
  "progress_expr current_idx export_from_index export_to_index =
     (if int export_to_index - int export_from_index = 0 then Inl ZeroDivisionError
      else Inr (of_int (int current_idx - int export_from_index)
                  / of_int (int export_to_index - int export_from_index) * (9 / 10) + 1 / 10))"

record 'img loop_state =
  capture :: File_Source
  start_time :: "rat option"
  next_update_idx :: nat
  encoded :: "'img VideoFrame list"
  yielded :: "progress_event list"

text \<open>
  The loop of lines 73 to 99. It returns the state at the \<^verbatim>\<open>break\<close>, or the state at
  the point where an exception left the loop, together with that exception.
\<close>

function export_loop ::
  "(File_Source \<Rightarrow> Frame \<Rightarrow> 'img) \<Rightarrow> nat \<Rightarrow> nat \<Rightarrow> 'img loop_state
     \<Rightarrow> 'img loop_state \<times> exception option" where
  "export_loop process_frame export_from_index export_to_index s =
     (case get_frame (capture s) of
        Inl e \<Rightarrow> (s, None)
      | Inr (frame, cap) \<Rightarrow>
          if index frame > export_to_index then (s\<lparr>capture := cap\<rparr>, None)
          else
            let t0 = (case start_time s of None \<Rightarrow> timestamp frame | Some t \<Rightarrow> t);
                undistorted_img = process_frame cap frame;
                av_frame = \<lparr>plane = undistorted_img,
                            pts = py_int ((timestamp frame - t0) / time_base),
                            frame_time_base = time_base\<rparr>;
                s1 = s\<lparr>capture := cap, start_time := Some t0,
                       encoded := encoded s @ [av_frame]\<rparr>
            in if current_frame_idx cap \<ge> next_update_idx s1 then
                 (case progress_expr (current_frame_idx cap) export_from_index export_to_index of
                    Inl e \<Rightarrow> (s1, Some e)
                  | Inr progress \<Rightarrow>
                      export_loop process_frame export_from_index export_to_index
                        (s1\<lparr>yielded := yielded s1 @ [(''Converting video'', progress * 100)],
                            next_update_idx := next_update_idx s1 + update_rate\<rparr>))
               else export_loop process_frame export_from_index export_to_index s1)"
  by pat_completeness auto

termination
  by (relation "measure (\<lambda>(p, a, b, s).
        length (timestamps (capture s)) - target_frame_idx (capture s))")
     (auto simp: get_frame_def Let_def split: if_splits)

declare export_loop.simps [simp del]

text \<open>
  The generator, run to exhaustion: the events it yields in order, the output container
  (\<open>None\<close> when none was opened) and the exception that ended the run, if any. The
  container is closed only on the path that reaches line 108.
\<close>

record 'img export_run =
  progress_events :: "progress_event list"
  target_container :: "'img container option"
  raised :: "exception option"

definition export_processed_h264 ::
  "environment \<Rightarrow> rat list \<Rightarrow> string \<Rightarrow> string \<Rightarrow> nat \<times> nat
     \<Rightarrow> (File_Source \<Rightarrow> Frame \<Rightarrow> 'img) \<Rightarrow> 'img export_run" where
  "export_processed_h264 env world_timestamps unprocessed_video_loc target_video_loc
       export_range process_frame =
     (let first_event = (''Converting video'', 1 / 10);
          capture0 = open_File_Source env unprocessed_video_loc
      in if \<not> initialised capture0
         then \<lparr>progress_events = [first_event, (''Converting scene video failed'', 0)],
               target_container = None, raised = None\<rparr>
         else
           let (export_from_index, export_to_index) =
                 find_closest_exact_window env (timestamps capture0) world_timestamps export_range;
               video_stream =
                 \<lparr>codec_name = ''mpeg4'', rate = 1 / time_base, bit_rate = 150000000,
                  bit_rate_tolerance = 150000000 / 20,
                  thread_count = max 1 (cpu_count env - 1),
                  width = fst (frame_size capture0), height = snd (frame_size capture0)\<rparr>;
               (s, exc) =
                 export_loop process_frame export_from_index export_to_index
                   \<lparr>capture = seek_to_frame export_from_index capture0, start_time = None,
                    next_update_idx = export_from_index + update_rate,
                    encoded = [], yielded = []\<rparr>
           in (case exc of
                Some e \<Rightarrow>
                  \<lparr>progress_events = first_event # yielded s,
                   target_container =
                     Some \<lparr>file_loc = target_video_loc, stream = video_stream,
                           frames = encoded s, closed = False\<rparr>,
                   raised = Some e\<rparr>
              | None \<Rightarrow>
                  \<lparr>progress_events = first_event # yielded s @ [(''Converting video completed'', 1 * 100)],
                   target_container =
                     Some \<lparr>file_loc = target_video_loc, stream = video_stream,
                           frames = encoded s, closed = True\<rparr>,
                   raised = None\<rparr>))"

subsection \<open>The plugin (\<^verbatim>\<open>VideoExporter\<close>)\<close>

text \<open>
  The spec's Progress-Reporting Task (\<^verbatim>\<open>Task_Proxy\<close> of the module \<^verbatim>\<open>background_helper\<close>,
  whose source is not at hand) as the plugin sees it: the name and the arguments it was
  created with, the events that the background work has produced and that no \<^verbatim>\<open>fetch\<close>
  has returned yet, and the readable flag that tells whether the task was cancelled.
\<close>

record 'pf Task_Proxy =
  process_name :: string
  generator_args :: "rat list \<times> string \<times> string \<times> (nat \<times> nat) \<times> 'pf"
  unfetched :: "progress_event list"
  canceled :: bool

text \<open>Modelled from the spec: the constructor of \<^verbatim>\<open>Task_Proxy\<close>. It starts the
  background work and returns at once; the new task has delivered nothing yet and is
  not cancelled.
\<close>

definition new_Task_Proxy ::
  "string \<Rightarrow> rat list \<times> string \<times> string \<times> (nat \<times> nat) \<times> 'pf \<Rightarrow> 'pf Task_Proxy" where
  "new_Task_Proxy name args =
     \<lparr>process_name = name, generator_args = args, unfetched = [], canceled = False\<rparr>"

text \<open>Modelled from the spec: \<^verbatim>\<open>Task_Proxy.fetch\<close>. It returns all Progress Events
  produced since the last call, in emission order, and an empty result if there are
  none; it never blocks.
\<close>

definition fetch :: "'pf Task_Proxy \<Rightarrow> progress_event list \<times> 'pf Task_Proxy" where
  "fetch task = (unfetched task, task\<lparr>unfetched := []\<rparr>)"

text \<open>
  The plugin object: \<^verbatim>\<open>g_pool.rec_dir\<close>, \<^verbatim>\<open>g_pool.timestamps\<close> and the four attributes
  that \<^verbatim>\<open>__init__\<close> sets (\<open>output_path\<close> is \<^verbatim>\<open>self.output\<close>).
\<close>

record 'pf VideoExporter =
  rec_dir :: string
  g_timestamps :: "rat list"
  export_tasks :: "(string \<times> 'pf Task_Proxy) list"
  status :: string
  progress :: rat
  output_path :: string

definition new_VideoExporter :: "string \<Rightarrow> rat list \<Rightarrow> 'pf VideoExporter" where
  "new_VideoExporter dir ts =
     \<lparr>rec_dir = dir, g_timestamps = ts, export_tasks = [],
      status = ''Not exporting'', progress = 0, output_path = ''Not set yet''\<rparr>"

text \<open>
  What the plugin sees of the file system: the directories that exist, the key-value
  files as \<^verbatim>\<open>csv_utils.read_key_value_file\<close> parses them, and the answer of \<^verbatim>\<open>glob\<close> to a
  pattern.
\<close>

record filesystem =
  directories :: "string set"
  key_value_files :: "string \<rightharpoonup> (string \<rightharpoonup> string)"
  glob :: "string \<Rightarrow> string list"

text \<open>\<^verbatim>\<open>os.path.join\<close> with two arguments and \<^verbatim>\<open>os.path.splitext\<close>, as \<^verbatim>\<open>posixpath\<close> has them.\<close>

definition os_path_join :: "string \<Rightarrow> string \<Rightarrow> string" where
  "os_path_join a b =
     (if b \<noteq> [] \<and> hd b = CHR ''/'' then b
      else if a = [] \<or> last a = CHR ''/'' then a @ b
      else a @ ''/'' @ b)"

definition splitext :: "string \<Rightarrow> string \<times> string" where
  "splitext p =
     (let tail = takeWhile (\<lambda>c. c \<noteq> CHR ''.'' \<and> c \<noteq> CHR ''/'') (rev p);
          rest = dropWhile (\<lambda>c. c \<noteq> CHR ''.'' \<and> c \<noteq> CHR ''/'') (rev p)
      in if rest \<noteq> [] \<and> hd rest = CHR ''.''
            \<and> filter (\<lambda>c. c \<noteq> CHR ''.'') (takeWhile (\<lambda>c. c \<noteq> CHR ''/'') (tl rest)) \<noteq> []
         then (rev (tl rest), CHR ''.'' # rev tail)
         else (p, []))"

text \<open>\<^verbatim>\<open>os.makedirs(path, exist_ok=True)\<close>: afterwards the directory exists.\<close>

definition makedirs_exist_ok :: "string \<Rightarrow> filesystem \<Rightarrow> filesystem" where
  "makedirs_exist_ok path fs = fs\<lparr>directories := insert path (directories fs)\<rparr>"

text \<open>\<^verbatim>\<open>str.replace\<close> with patterns of one character.\<close>

definition replace_char :: "char \<Rightarrow> char \<Rightarrow> string \<Rightarrow> string" where
  "replace_char old new s = map (\<lambda>c. if c = old then new else c) s"

definition get_recording_start_date ::
  "filesystem \<Rightarrow> 'pf VideoExporter \<Rightarrow> exception + string" where
  "get_recording_start_date fs self =
     (let csv_loc = os_path_join (rec_dir self) ''info.csv'' in
      case key_value_files fs csv_loc of
        None \<Rightarrow> Inl FileNotFoundError
      | Some rec_info \<Rightarrow>
          (case rec_info ''Start Date'' of
             None \<Rightarrow> Inl KeyError
           | Some start_date_value \<Rightarrow>
               let date = replace_char (CHR '':'') (CHR ''_'')
                            (replace_char (CHR ''.'') (CHR ''_'') start_date_value)
               in (case rec_info ''Start Time'' of
                     None \<Rightarrow> Inl KeyError
                   | Some start_time_value \<Rightarrow>
                       let time = replace_char (CHR '':'') (CHR ''_'') start_time_value
                       in Inr (date @ ''_'' @ time))))"

text \<open>
  \<^verbatim>\<open>add_export_job\<close>: the value returned or the exception raised, the plugin and the file
  system as the call leaves them.
\<close>

definition add_export_job ::
  "filesystem \<Rightarrow> 'pf VideoExporter \<Rightarrow> nat \<times> nat \<Rightarrow> string \<Rightarrow> string \<Rightarrow> string \<Rightarrow> string \<Rightarrow> 'pf
     \<Rightarrow> (exception + (string \<rightharpoonup> string)) \<times> 'pf VideoExporter \<times> filesystem" where
  "add_export_job fs self export_range export_dir plugin_name input_name output_name
       process_frame =
     (case get_recording_start_date fs self of
        Inl e \<Rightarrow> (Inl e, self, fs)
      | Inr rec_start \<Rightarrow>
          let im_dir = os_path_join export_dir (plugin_name @ ''_'' @ rec_start);
              fs1 = makedirs_exist_ok im_dir fs;
              self1 = self\<lparr>output_path := im_dir\<rparr>
          in (case filter (\<lambda>f. snd (splitext f) \<in> {''.mp4'', ''.mkv'', ''.avi'', ''.mjpeg''})
                     (glob fs1 (os_path_join (rec_dir self1) (input_name @ ''.*''))) of
                [] \<Rightarrow> (Inl IndexError, self1, fs1)
              | distorted_video_loc # _ \<Rightarrow>
                  let target_video_loc = os_path_join im_dir (output_name @ ''.mp4'');
                      generator_args =
                        (g_timestamps self1, distorted_video_loc, target_video_loc,
                         export_range, process_frame);
                      task = new_Task_Proxy (plugin_name @ '' Video Export'') generator_args
                  in (Inr [''export_folder'' \<mapsto> im_dir],
                      self1\<lparr>export_tasks := export_tasks self1 @ [(''taskname'', task)]\<rparr>,
                      fs1)))"

text \<open>
  \<^verbatim>\<open>recent_events\<close>: the loop over the tracked tasks carries the pair of \<^verbatim>\<open>self.status\<close>
  and \<^verbatim>\<open>self.progress\<close>; each task is left as \<^verbatim>\<open>fetch\<close> leaves it.
\<close>

fun recent_events_loop ::
  "(string \<times> 'pf Task_Proxy) list \<Rightarrow> string \<times> rat
     \<Rightarrow> (string \<times> 'pf Task_Proxy) list \<times> (string \<times> rat)" where
  "recent_events_loop [] shown = ([], shown)"
| "recent_events_loop ((task_name, task) # rest) shown =
     (let (recent, task1) = fetch task;
          shown1 = (if recent \<noteq> [] then last recent else shown);
          shown2 = (if canceled task1 then (''Export has been canceled'', 0) else shown1);
          (rest1, shown3) = recent_events_loop rest shown2
      in ((task_name, task1) # rest1, shown3))"

definition recent_events :: "'pf VideoExporter \<Rightarrow> 'ev \<Rightarrow> 'pf VideoExporter" where
  "recent_events self events =
     (let (tasks, (new_status, new_progress)) =
            recent_events_loop (export_tasks self) (status self, progress self)
      in self\<lparr>export_tasks := tasks, status := new_status, progress := new_progress\<rparr>)"

subsection \<open>Concrete inputs\<close>

text \<open>
  A source of fifteen frames, one per second from second 50 on; a range resolution that
  hands the requested range through; a source that fails to initialise.
\<close>

definition example_source :: File_Source where
  "example_source =
     \<lparr>initialised = True,
      timestamps = [50, 51, 52, 53, 54, 55, 56, 57, 58, 59, 60, 61, 62, 63, 64],
      frame_size = (1280, 720), target_frame_idx = 0, current_frame_idx = 0\<rparr>"

definition example_environment :: environment where
  "example_environment =
     \<lparr>open_File_Source = (\<lambda>loc. example_source),
      find_closest_exact_window = (\<lambda>source_timestamps world_timestamps export_range. export_range),
      cpu_count = 4\<rparr>"

definition failing_environment :: environment where
  "failing_environment =
     \<lparr>open_File_Source = (\<lambda>loc. example_source\<lparr>initialised := False\<rparr>),
      find_closest_exact_window = (\<lambda>source_timestamps world_timestamps export_range. export_range),
      cpu_count = 4\<rparr>"


text \<open>
  A recording directory with a world video and its intrinsics file, an intrinsics file
  but no video for the first eye camera, nothing for the second; and a plugin on it.
\<close>

definition example_filesystem :: filesystem where
  "example_filesystem =
     \<lparr>directories = {''/recordings/001'', ''/recordings/001/exports''},
      key_value_files =
        [''/recordings/001/info.csv'' \<mapsto>
           [''Start Date'' \<mapsto> ''06.11.2017'', ''Start Time'' \<mapsto> ''10:15:30'']],
      glob = (\<lambda>pattern.
        if pattern = ''/recordings/001/world.*''
        then [''/recordings/001/world.intrinsics'', ''/recordings/001/world.mp4'']
        else if pattern = ''/recordings/001/eye0.*''
        then [''/recordings/001/eye0.intrinsics'']
        else [])\<rparr>"

definition example_plugin :: "unit VideoExporter" where
  "example_plugin = new_VideoExporter ''/recordings/001'' [50, 51, 52]"

text \<open>
  A task that has produced nothing since the last poll, a task with two unfetched
  events, and a plugin that tracks the former.
\<close>

definition quiet_task :: "unit Task_Proxy" where
  "quiet_task = new_Task_Proxy ''iMotions Video Export''
     ([50, 51, 52], ''/recordings/001/world.mp4'', ''/recordings/001/exports/scene.mp4'', (0, 2), ())"

definition reporting_task :: "unit Task_Proxy" where
  "reporting_task = quiet_task\<lparr>unfetched := [(''Converting video'', 55), (''Converting video'', 85)]\<rparr>"

definition waiting_plugin :: "unit VideoExporter" where
  "waiting_plugin = example_plugin
     \<lparr>export_tasks := [(''taskname'', quiet_task)], status := ''Converting video'', progress := 55\<rparr>"

subsection \<open>Notions used in the proofs\<close>

text \<open>
  The loop state after one pass through lines 75 to 91 for a frame inside the range:
  the frame at the cursor is read, the origin is fixed if it was not, the frame is
  encoded.
\<close>

definition after_frame :: "(File_Source \<Rightarrow> Frame \<Rightarrow> 'img) \<Rightarrow> 'img loop_state \<Rightarrow> 'img loop_state" where
  "after_frame pf s =
     (let i = target_frame_idx (capture s);
          cap = (capture s)\<lparr>target_frame_idx := i + 1, current_frame_idx := i\<rparr>;
          t0 = (case start_time s of None \<Rightarrow> timestamps (capture s) ! i | Some t \<Rightarrow> t)
      in s\<lparr>capture := cap, start_time := Some t0,
           encoded := encoded s @
             [\<lparr>plane = pf cap \<lparr>timestamp = timestamps (capture s) ! i, index = i\<rparr>,
               pts = py_int ((timestamps (capture s) ! i - t0) / time_base),
               frame_time_base = time_base\<rparr>]\<rparr>)"

text \<open>What the loop hands to the encoder for the frame with index \<open>i\<close> and origin \<open>t0\<close>.\<close>

definition encoded_at ::
  "(File_Source \<Rightarrow> Frame \<Rightarrow> 'img) \<Rightarrow> File_Source \<Rightarrow> rat \<Rightarrow> nat \<Rightarrow> 'img VideoFrame" where
  "encoded_at pf c t0 i =
     \<lparr>plane = pf (c\<lparr>target_frame_idx := i + 1, current_frame_idx := i\<rparr>)
                 \<lparr>timestamp = timestamps c ! i, index = i\<rparr>,
      pts = py_int ((timestamps c ! i - t0) / time_base),
      frame_time_base = time_base\<rparr>"

text \<open>The time origin that the loop uses from the state \<open>s\<close> on.\<close>

definition origin :: "'img loop_state \<Rightarrow> rat" where
  "origin s = (case start_time s of
                 None \<Rightarrow> timestamps (capture s) ! target_frame_idx (capture s)
               | Some t \<Rightarrow> t)"

text \<open>The percent value of an in-loop event for the current index \<open>i\<close>.\<close>

definition percent_at :: "nat \<Rightarrow> nat \<Rightarrow> nat \<Rightarrow> rat" where
  "percent_at a b i = (of_int (int i - int a) / of_int (int b - int a) * (9 / 10) + 1 / 10) * 100"

section \<open>The loop\<close>

lemma export_loop_eof:
  "\<not> target_frame_idx (capture s) < length (timestamps (capture s)) \<Longrightarrow>
     export_loop pf a b s = (s, None)"
  by (subst export_loop.simps) (simp add: get_frame_def)

lemma export_loop_past:
  "target_frame_idx (capture s) < length (timestamps (capture s)) \<Longrightarrow>
   b < target_frame_idx (capture s) \<Longrightarrow>
     export_loop pf a b s =
       (s\<lparr>capture := (capture s)\<lparr>target_frame_idx := target_frame_idx (capture s) + 1,
                                  current_frame_idx := target_frame_idx (capture s)\<rparr>\<rparr>, None)"
  by (subst export_loop.simps) (simp add: get_frame_def Let_def)

lemma export_loop_step:
  assumes "target_frame_idx (capture s) < length (timestamps (capture s))"
    and "target_frame_idx (capture s) \<le> b"
  shows "export_loop pf a b s =
     (if next_update_idx s \<le> target_frame_idx (capture s) then
        (case progress_expr (target_frame_idx (capture s)) a b of
           Inl e \<Rightarrow> (after_frame pf s, Some e)
         | Inr p \<Rightarrow>
             export_loop pf a b
               ((after_frame pf s)
                  \<lparr>yielded := yielded s @ [(''Converting video'', p * 100)],
                   next_update_idx := next_update_idx s + update_rate\<rparr>))
      else export_loop pf a b (after_frame pf s))"
  using assms
  by (subst export_loop.simps)
     (simp add: get_frame_def after_frame_def Let_def cong: option.case_cong sum.case_cong)

lemma after_frame_simps [simp]:
  "timestamps (capture (after_frame pf s)) = timestamps (capture s)"
  "target_frame_idx (capture (after_frame pf s)) = Suc (target_frame_idx (capture s))"
  "next_update_idx (after_frame pf s) = next_update_idx s"
  "yielded (after_frame pf s) = yielded s"
  by (simp_all add: after_frame_def Let_def)

lemma progress_expr_defined:
  "a < b \<Longrightarrow> progress_expr i a b =
     Inr (of_int (int i - int a) / of_int (int b - int a) * (9 / 10) + 1 / 10)"
  by (simp add: progress_expr_def)

text \<open>No exception leaves the loop once the next update index lies beyond the range start.\<close>

lemma export_loop_no_exception:
  "a < next_update_idx s \<Longrightarrow> snd (export_loop pf a b s) = None"
proof (induction "length (timestamps (capture s)) - target_frame_idx (capture s)"
    arbitrary: s rule: less_induct)
  case less
  let ?i = "target_frame_idx (capture s)"
  show ?case
  proof (cases "?i < length (timestamps (capture s))")
    case False
    then show ?thesis by (simp add: export_loop_eof)
  next
    case inside: True
    show ?thesis
    proof (cases "?i \<le> b")
      case False
      with inside show ?thesis by (simp add: export_loop_past)
    next
      case True
      show ?thesis
      proof (cases "next_update_idx s \<le> ?i")
        case no_update: False
        have "snd (export_loop pf a b (after_frame pf s)) = None"
          using inside less.prems by (intro less.hyps) simp_all
        with inside True no_update show ?thesis by (simp add: export_loop_step)
      next
        case update: True
        with less.prems True have "a < b" by simp
        let ?s' = "(after_frame pf s)
            \<lparr>yielded := yielded s @ [(''Converting video'',
                 (of_int (int ?i - int a) / of_int (int b - int a) * (9 / 10) + 1 / 10) * 100)],
             next_update_idx := next_update_idx s + update_rate\<rparr>"
        have "snd (export_loop pf a b ?s') = None"
          using inside less.prems by (intro less.hyps) simp_all
        with inside True update \<open>a < b\<close> show ?thesis
          by (simp add: export_loop_step progress_expr_defined)
      qed
    qed
  qed
qed

lemma encoded_at_cursor [simp]:
  "encoded_at pf (c\<lparr>target_frame_idx := x, current_frame_idx := y\<rparr>) t0 i = encoded_at pf c t0 i"
  by (simp add: encoded_at_def)

lemma after_frame_encoded:
  "encoded (after_frame pf s) =
     encoded s @ [encoded_at pf (capture s) (origin s) (target_frame_idx (capture s))]"
  by (simp add: after_frame_def encoded_at_def origin_def Let_def)

lemma after_frame_origin [simp]: "origin (after_frame pf s) = origin s"
  by (simp add: after_frame_def origin_def Let_def)

lemma origin_update [simp]:
  "origin (s\<lparr>yielded := ys, next_update_idx := n\<rparr>) = origin s"
  by (simp add: origin_def cong: option.case_cong)

lemma after_frame_capture:
  "capture (after_frame pf s) =
     (capture s)\<lparr>target_frame_idx := target_frame_idx (capture s) + 1,
                 current_frame_idx := target_frame_idx (capture s)\<rparr>"
  by (simp add: after_frame_def Let_def)

lemma export_loop_encoded:
  "a < next_update_idx s \<Longrightarrow>
     encoded (fst (export_loop pf a b s)) =
       encoded s @ map (encoded_at pf (capture s) (origin s))
         [target_frame_idx (capture s) ..< min (Suc b) (length (timestamps (capture s)))]"
proof (induction "length (timestamps (capture s)) - target_frame_idx (capture s)"
    arbitrary: s rule: less_induct)
  case less
  let ?i = "target_frame_idx (capture s)"
  let ?n = "length (timestamps (capture s))"
  show ?case
  proof (cases "?i < ?n")
    case False
    then show ?thesis by (simp add: export_loop_eof)
  next
    case inside: True
    show ?thesis
    proof (cases "?i \<le> b")
      case False
      with inside show ?thesis by (simp add: export_loop_past)
    next
      case True
      with inside have range: "[?i ..< min (Suc b) ?n] = ?i # [Suc ?i ..< min (Suc b) ?n]"
        by (simp add: upt_conv_Cons)
      have step: "encoded (fst (export_loop pf a b s')) =
          encoded s @ map (encoded_at pf (capture s) (origin s)) [?i ..< min (Suc b) ?n]"
        if "capture s' = capture (after_frame pf s)" "encoded s' = encoded (after_frame pf s)"
          "origin s' = origin s" "a < next_update_idx s'" for s'
      proof -
        have "encoded (fst (export_loop pf a b s')) =
            encoded s' @ map (encoded_at pf (capture s') (origin s'))
              [target_frame_idx (capture s') ..< min (Suc b) (length (timestamps (capture s')))]"
          using that inside by (intro less.hyps) simp_all
        with that show ?thesis
          by (simp add: range after_frame_encoded after_frame_capture)
      qed
      show ?thesis
      proof (cases "next_update_idx s \<le> ?i")
        case False
        with inside True less.prems show ?thesis
          by (simp add: export_loop_step step)
      next
        case update: True
        with less.prems True have "a < b" by simp
        with inside True update less.prems show ?thesis
          by (simp add: export_loop_step progress_expr_defined step)
      qed
    qed
  qed
qed

lemma percent_at_mono: "a \<le> b \<Longrightarrow> i \<le> j \<Longrightarrow> percent_at a b i \<le> percent_at a b j"
  by (simp add: percent_at_def divide_right_mono)

lemma scale_bounds:
  fixes r :: rat
  shows "r \<le> 1 \<Longrightarrow> (r * (9 / 10) + 1 / 10) * 100 \<le> 100"
    and "0 \<le> r \<Longrightarrow> 10 \<le> (r * (9 / 10) + 1 / 10) * 100"
  by (simp_all add: algebra_simps)

lemma percent_at_upper: "a < b \<Longrightarrow> i \<le> b \<Longrightarrow> percent_at a b i \<le> 100"
proof -
  assume "a < b" "i \<le> b"
  then have "(of_int (int i - int a) :: rat) / of_int (int b - int a) \<le> 1"
    by simp
  then show ?thesis unfolding percent_at_def by (rule scale_bounds)
qed

lemma export_loop_yielded:
  assumes "a + update_rate \<le> next_update_idx s"
    and "a \<le> target_frame_idx (capture s)"
  shows "\<exists>ys. yielded (fst (export_loop pf a b s)) = yielded s @ ys
           \<and> sorted (map snd ys)
           \<and> (\<forall>e \<in> set ys. fst e = ''Converting video''
                  \<and> percent_at a b (target_frame_idx (capture s)) \<le> snd e \<and> snd e \<le> 100)
           \<and> (ys = [] \<or> a + update_rate \<le> b)"
  using assms
proof (induction "length (timestamps (capture s)) - target_frame_idx (capture s)"
    arbitrary: s rule: less_induct)
  case less
  let ?i = "target_frame_idx (capture s)"
  let ?n = "length (timestamps (capture s))"
  show ?case
  proof (cases "?i < ?n")
    case False
    then show ?thesis by (simp add: export_loop_eof)
  next
    case inside: True
    show ?thesis
    proof (cases "?i \<le> b")
      case False
      with inside show ?thesis by (simp add: export_loop_past)
    next
      case True
      with less.prems have "a \<le> b" by simp
      then have up: "percent_at a b ?i \<le> percent_at a b (Suc ?i)"
        by (rule percent_at_mono) simp
      show ?thesis
      proof (cases "next_update_idx s \<le> ?i")
        case no_update: False
        have "\<exists>ys. yielded (fst (export_loop pf a b (after_frame pf s))) =
                 yielded (after_frame pf s) @ ys
             \<and> sorted (map snd ys)
             \<and> (\<forall>e \<in> set ys. fst e = ''Converting video''
                    \<and> percent_at a b (target_frame_idx (capture (after_frame pf s))) \<le> snd e
                    \<and> snd e \<le> 100)
             \<and> (ys = [] \<or> a + update_rate \<le> b)"
          using inside less.prems by (intro less.hyps) simp_all
        then obtain ys where ys: "yielded (fst (export_loop pf a b (after_frame pf s))) = yielded s @ ys"
          "sorted (map snd ys)"
          "\<forall>e \<in> set ys. fst e = ''Converting video'' \<and> percent_at a b (Suc ?i) \<le> snd e \<and> snd e \<le> 100"
          "ys = [] \<or> a + update_rate \<le> b"
          by auto
        from ys(3) up have "\<forall>e \<in> set ys. fst e = ''Converting video''
            \<and> percent_at a b ?i \<le> snd e \<and> snd e \<le> 100"
          by fastforce
        with ys(1,2,4) inside True no_update show ?thesis
          by (simp add: export_loop_step)
      next
        case update: True
        with less.prems True have far: "a + update_rate \<le> b" by simp
        then have "a < b" by (simp add: update_rate_def)
        let ?p = "percent_at a b ?i"
        let ?s' = "(after_frame pf s)
            \<lparr>yielded := yielded s @ [(''Converting video'', ?p)],
             next_update_idx := next_update_idx s + update_rate\<rparr>"
        have "\<exists>ys. yielded (fst (export_loop pf a b ?s')) = yielded ?s' @ ys
             \<and> sorted (map snd ys)
             \<and> (\<forall>e \<in> set ys. fst e = ''Converting video''
                    \<and> percent_at a b (target_frame_idx (capture ?s')) \<le> snd e
                    \<and> snd e \<le> 100)
             \<and> (ys = [] \<or> a + update_rate \<le> b)"
          using inside less.prems by (intro less.hyps) simp_all
        then obtain ys where ys: "yielded (fst (export_loop pf a b ?s')) =
              yielded s @ (''Converting video'', ?p) # ys"
          "sorted (map snd ys)"
          "\<forall>e \<in> set ys. fst e = ''Converting video'' \<and> percent_at a b (Suc ?i) \<le> snd e \<and> snd e \<le> 100"
          by auto
        from ys(3) up have low: "\<forall>e \<in> set ys. ?p \<le> snd e"
          by fastforce
        have here: "export_loop pf a b s = export_loop pf a b ?s'"
          using inside True update \<open>a < b\<close>
          by (simp add: export_loop_step progress_expr_defined percent_at_def)
        have "?p \<le> 100"
          using \<open>a < b\<close> True by (rule percent_at_upper)
        with ys low far show ?thesis
          unfolding here by (intro exI [of _ "(''Converting video'', ?p) # ys"]) auto
      qed
    qed
  qed
qed

lemma encoded_at_seek [simp]:
  "encoded_at pf (seek_to_frame x c) t0 i = encoded_at pf c t0 i"
  by (simp add: encoded_at_def seek_to_frame_def)

lemma seek_to_frame_simps [simp]:
  "target_frame_idx (seek_to_frame x c) = x"
  "timestamps (seek_to_frame x c) = timestamps c"
  by (simp_all add: seek_to_frame_def)

lemma percent_at_start: "percent_at a b a = 10"
  by (simp add: percent_at_def)

text \<open>The shape of every run whose source initialises.\<close>

lemma export_run_initialised:
  assumes init: "initialised (open_File_Source env src)"
    and res: "find_closest_exact_window env (timestamps (open_File_Source env src)) wts rng = (a, b)"
  shows "\<exists>ys. export_processed_h264 env wts src dst rng pf =
           \<lparr>progress_events = (''Converting video'', 1 / 10) # ys @ [(''Converting video completed'', 100)],
            target_container = Some
              \<lparr>file_loc = dst,
               stream = \<lparr>codec_name = ''mpeg4'', rate = 65535, bit_rate = 150000000,
                         bit_rate_tolerance = 7500000,
                         thread_count = max 1 (cpu_count env - 1),
                         width = fst (frame_size (open_File_Source env src)),
                         height = snd (frame_size (open_File_Source env src))\<rparr>,
               frames = map (encoded_at pf (open_File_Source env src)
                               (timestamps (open_File_Source env src) ! a))
                            [a ..< min (Suc b) (length (timestamps (open_File_Source env src)))],
               closed = True\<rparr>,
            raised = None\<rparr>
         \<and> sorted (map snd ys)
         \<and> (\<forall>e \<in> set ys. fst e = ''Converting video'' \<and> 10 \<le> snd e \<and> snd e \<le> 100)
         \<and> (ys = [] \<or> a + update_rate \<le> b)"
proof -
  let ?cap = "open_File_Source env src"
  let ?s0 = "\<lparr>capture = seek_to_frame a ?cap, start_time = None,
              next_update_idx = a + update_rate, encoded = [], yielded = []\<rparr> :: 'a loop_state"
  obtain s exc where run: "export_loop pf a b ?s0 = (s, exc)"
    by (cases "export_loop pf a b ?s0")
  have s0: "a < next_update_idx ?s0" "a + update_rate \<le> next_update_idx ?s0"
    "a \<le> target_frame_idx (capture ?s0)" "target_frame_idx (capture ?s0) = a"
    "timestamps (capture ?s0) = timestamps ?cap" "origin ?s0 = timestamps ?cap ! a"
    by (simp_all add: update_rate_def origin_def)
  have "snd (export_loop pf a b ?s0) = None"
    using s0(1) by (rule export_loop_no_exception)
  with run have exc: "exc = None" by simp
  have "encoded (fst (export_loop pf a b ?s0)) =
      encoded ?s0 @ map (encoded_at pf (capture ?s0) (origin ?s0))
        [target_frame_idx (capture ?s0) ..< min (Suc b) (length (timestamps (capture ?s0)))]"
    using s0(1) by (rule export_loop_encoded)
  with run have enc: "encoded s = map (encoded_at pf ?cap (timestamps ?cap ! a))
      [a ..< min (Suc b) (length (timestamps ?cap))]"
    by (simp add: origin_def)
  have "\<exists>ys. yielded (fst (export_loop pf a b ?s0)) = yielded ?s0 @ ys
           \<and> sorted (map snd ys)
           \<and> (\<forall>e \<in> set ys. fst e = ''Converting video''
                  \<and> percent_at a b (target_frame_idx (capture ?s0)) \<le> snd e \<and> snd e \<le> 100)
           \<and> (ys = [] \<or> a + update_rate \<le> b)"
    using s0(2,3) by (rule export_loop_yielded)
  then obtain ys where ys: "yielded s = ys" "sorted (map snd ys)"
    "\<forall>e \<in> set ys. fst e = ''Converting video'' \<and> 10 \<le> snd e \<and> snd e \<le> 100"
    "ys = [] \<or> a + update_rate \<le> b"
    unfolding s0(4) percent_at_start using run by auto
  have "export_processed_h264 env wts src dst rng pf =
           \<lparr>progress_events = (''Converting video'', 1 / 10) # ys @ [(''Converting video completed'', 100)],
            target_container = Some
              \<lparr>file_loc = dst,
               stream = \<lparr>codec_name = ''mpeg4'', rate = 65535, bit_rate = 150000000,
                         bit_rate_tolerance = 7500000,
                         thread_count = max 1 (cpu_count env - 1),
                         width = fst (frame_size ?cap), height = snd (frame_size ?cap)\<rparr>,
               frames = map (encoded_at pf ?cap (timestamps ?cap ! a))
                            [a ..< min (Suc b) (length (timestamps ?cap))],
               closed = True\<rparr>,
            raised = None\<rparr>"
    using init res run exc enc ys(1)
    by (simp add: export_processed_h264_def Let_def time_base_def Fract_of_int_quotient)
  with ys(2,3,4) show ?thesis by blast
qed

lemma export_run_uninitialised:
  "\<not> initialised (open_File_Source env src) \<Longrightarrow>
     export_processed_h264 env wts src dst rng pf =
       \<lparr>progress_events = [(''Converting video'', 1 / 10), (''Converting scene video failed'', 0)],
        target_container = None, raised = None\<rparr>"
  by (simp add: export_processed_h264_def)

section \<open>The pipeline\<close>



lemma py_int_zero: "py_int 0 = 0"
  by (simp add: py_int_def)

lemma export_run_frames:
  assumes "target_container (export_processed_h264 env wts src dst rng pf) = Some c"
    and "find_closest_exact_window env (timestamps (open_File_Source env src)) wts rng = (a, b)"
  shows "frames c = map (encoded_at pf (open_File_Source env src)
                               (timestamps (open_File_Source env src) ! a))
                        [a ..< min (Suc b) (length (timestamps (open_File_Source env src)))]
         \<and> rate (stream c) = 65535"
proof (cases "initialised (open_File_Source env src)")
  case False
  with assms(1) show ?thesis by (simp add: export_run_uninitialised)
next
  case True
  from export_run_initialised [OF True assms(2), of dst pf] assms(1)
  show ?thesis by auto
qed

text \<open>
  Claim C2. In every run that encodes at least one frame, the presentation timestamp of
  the first encoded frame is 0, whatever the range and wherever it lies in the source.
\<close>

theorem first_pts_is_zero:
  assumes "target_container (export_processed_h264 env wts src dst rng pf) = Some c"
    and "frames c \<noteq> []"
  shows "pts (hd (frames c)) = 0"
proof -
  let ?ts = "timestamps (open_File_Source env src)"
  obtain a b where res: "find_closest_exact_window env ?ts wts rng = (a, b)"
    by (cases "find_closest_exact_window env ?ts wts rng")
  from export_run_frames [OF assms(1) res]
  have fr: "frames c = map (encoded_at pf (open_File_Source env src) (?ts ! a))
      [a ..< min (Suc b) (length ?ts)]"
    by simp
  with assms(2) have "[a ..< min (Suc b) (length ?ts)] \<noteq> []" by auto
  then have "a < min (Suc b) (length ?ts)" by (cases "a < min (Suc b) (length ?ts)") simp_all
  then have "[a ..< min (Suc b) (length ?ts)] = a # [Suc a ..< min (Suc b) (length ?ts)]"
    by (rule upt_conv_Cons)
  with fr show ?thesis
    by (simp add: encoded_at_def py_int_zero)
qed

theorem first_pts_is_zero_witness:
  "target_container (export_processed_h264 example_environment [] ''world.mp4'' ''scene.mp4''
       (7, 9) (\<lambda>cap frame. index frame))
     = Some \<lparr>file_loc = ''scene.mp4'',
             stream = \<lparr>codec_name = ''mpeg4'', rate = 65535, bit_rate = 150000000,
                       bit_rate_tolerance = 7500000, thread_count = 3,
                       width = 1280, height = 720\<rparr>,
             frames = [\<lparr>plane = 7, pts = 0, frame_time_base = 1 / 65535\<rparr>,
                       \<lparr>plane = 8, pts = 65535, frame_time_base = 1 / 65535\<rparr>,
                       \<lparr>plane = 9, pts = 131070, frame_time_base = 1 / 65535\<rparr>],
             closed = True\<rparr>
   \<and> pts (hd [\<lparr>plane = 7::nat, pts = 0, frame_time_base = 1 / 65535\<rparr>,
               \<lparr>plane = 8, pts = 65535, frame_time_base = 1 / 65535\<rparr>,
               \<lparr>plane = 9, pts = 131070, frame_time_base = 1 / 65535\<rparr>]) = 0"
proof -
  have run: "target_container (export_processed_h264 example_environment [] ''world.mp4'' ''scene.mp4''
       (7, 9) (\<lambda>cap frame. index frame))
     = Some \<lparr>file_loc = ''scene.mp4'',
             stream = \<lparr>codec_name = ''mpeg4'', rate = 65535, bit_rate = 150000000,
                       bit_rate_tolerance = 7500000, thread_count = 3,
                       width = 1280, height = 720\<rparr>,
             frames = [\<lparr>plane = 7, pts = 0, frame_time_base = 1 / 65535\<rparr>,
                       \<lparr>plane = 8, pts = 65535, frame_time_base = 1 / 65535\<rparr>,
                       \<lparr>plane = 9, pts = 131070, frame_time_base = 1 / 65535\<rparr>],
             closed = True\<rparr>"
    by code_simp
  from first_pts_is_zero [OF run] run show ?thesis by simp
qed



text \<open>
  Claim C4. When the source fails to initialise, the run yields the first event, then
  the failure event at percent 0, and ends: no container is opened, nothing is encoded,
  no exception is raised.
\<close>

theorem init_failure_reported:
  assumes "\<not> initialised (open_File_Source env src)"
  shows "export_processed_h264 env wts src dst rng pf =
           \<lparr>progress_events =
              [(''Converting video'', 1 / 10), (''Converting scene video failed'', 0)],
            target_container = None, raised = None\<rparr>"
  using assms by (rule export_run_uninitialised)

theorem init_failure_reported_witness:
  "\<not> initialised (open_File_Source failing_environment ''world.mp4'')
   \<and> export_processed_h264 failing_environment [] ''world.mp4'' ''scene.mp4'' (2, 5)
        (\<lambda>cap frame. index frame) =
        \<lparr>progress_events =
           [(''Converting video'', 1 / 10), (''Converting scene video failed'', 0)],
         target_container = None, raised = None\<rparr>"
proof -
  have h: "\<not> initialised (open_File_Source failing_environment ''world.mp4'')"
    by (simp add: failing_environment_def example_source_def)
  from init_failure_reported [OF h] h show ?thesis by simp
qed




text \<open>
  Claim C6. Every event of every run carries a percent value between 0 and 100; this
  includes the events yielded inside the loop.
\<close>

theorem percent_within_bounds:
  "\<forall>e \<in> set (progress_events (export_processed_h264 env wts src dst rng pf)).
      0 \<le> snd e \<and> snd e \<le> 100"
proof (cases "initialised (open_File_Source env src)")
  case False
  then show ?thesis by (simp add: export_run_uninitialised)
next
  case True
  obtain a b where res:
    "find_closest_exact_window env (timestamps (open_File_Source env src)) wts rng = (a, b)"
    by (cases "find_closest_exact_window env (timestamps (open_File_Source env src)) wts rng")
  from export_run_initialised [OF True res, of dst pf]
  obtain ys where run: "progress_events (export_processed_h264 env wts src dst rng pf) =
        (''Converting video'', 1 / 10) # ys @ [(''Converting video completed'', 100)]"
    and ys: "\<forall>e \<in> set ys. 10 \<le> snd e \<and> snd e \<le> 100"
    by auto
  from ys have "\<forall>e \<in> set ys. 0 \<le> snd e \<and> snd e \<le> 100" by fastforce
  with run show ?thesis by simp
qed

theorem percent_within_bounds_witness:
  "progress_events (export_processed_h264 example_environment [] ''world.mp4'' ''scene.mp4''
       (0, 14) (\<lambda>cap frame. index frame)) =
     [(''Converting video'', 1 / 10), (''Converting video'', 520 / 7),
      (''Converting video completed'', 100)]
   \<and> (0::rat) \<le> 520 / 7 \<and> (520 / 7 :: rat) \<le> 100"
proof -
  have run: "progress_events (export_processed_h264 example_environment [] ''world.mp4''
       ''scene.mp4'' (0, 14) (\<lambda>cap frame. index frame)) =
     [(''Converting video'', 1 / 10), (''Converting video'', 520 / 7),
      (''Converting video completed'', 100)]"
    by code_simp
  from percent_within_bounds [of example_environment "[]" "''world.mp4''" "''scene.mp4''"
      "(0, 14)" "\<lambda>cap frame. index frame"]
  show ?thesis unfolding run by simp
qed

text \<open>
  Claim C9. No run ends in \<^verbatim>\<open>ZeroDivisionError\<close> (or any other exception). A run that
  yields an event inside the loop, that is, more than the first and the last event,
  has a range with \<open>export_from_index + update_rate \<le> export_to_index\<close>, so the divisor of
  the progress expression is positive whenever the expression is evaluated; a range of
  a single frame yields no event inside the loop.
\<close>

theorem progress_division_defined:
  assumes "find_closest_exact_window env (timestamps (open_File_Source env src)) wts rng
           = (export_from_index, export_to_index)"
  shows "raised (export_processed_h264 env wts src dst rng pf) = None
       \<and> (2 < length (progress_events (export_processed_h264 env wts src dst rng pf)) \<longrightarrow>
            export_from_index + update_rate \<le> export_to_index
            \<and> 0 < int export_to_index - int export_from_index)
       \<and> (export_to_index = export_from_index \<longrightarrow>
            length (progress_events (export_processed_h264 env wts src dst rng pf)) = 2)"
proof (cases "initialised (open_File_Source env src)")
  case False
  then show ?thesis by (simp add: export_run_uninitialised)
next
  case True
  from export_run_initialised [OF True assms, of dst pf]
  obtain ys where run: "progress_events (export_processed_h264 env wts src dst rng pf) =
        (''Converting video'', 1 / 10) # ys @ [(''Converting video completed'', 100)]"
      "raised (export_processed_h264 env wts src dst rng pf) = None"
    and ys: "ys = [] \<or> export_from_index + update_rate \<le> export_to_index"
    by auto
  from ys have "ys \<noteq> [] \<longrightarrow> export_from_index + update_rate \<le> export_to_index
      \<and> 0 < int export_to_index - int export_from_index"
    by (auto simp: update_rate_def)
  moreover from ys have "export_to_index = export_from_index \<longrightarrow> ys = []"
    by (auto simp: update_rate_def)
  ultimately show ?thesis using run by auto
qed

theorem progress_division_defined_witness:
  "find_closest_exact_window example_environment
       (timestamps (open_File_Source example_environment ''world.mp4'')) [] (4, 4) = (4, 4)
   \<and> raised (export_processed_h264 example_environment [] ''world.mp4'' ''scene.mp4'' (4, 4)
         (\<lambda>cap frame. index frame)) = None
   \<and> length (progress_events (export_processed_h264 example_environment [] ''world.mp4''
         ''scene.mp4'' (4, 4) (\<lambda>cap frame. index frame))) = 2
   \<and> find_closest_exact_window example_environment
       (timestamps (open_File_Source example_environment ''world.mp4'')) [] (1, 13) = (1, 13)
   \<and> 2 < length (progress_events (export_processed_h264 example_environment [] ''world.mp4''
         ''scene.mp4'' (1, 13) (\<lambda>cap frame. index frame)))
   \<and> (1::nat) + update_rate \<le> 13"
proof -
  have single: "find_closest_exact_window example_environment
       (timestamps (open_File_Source example_environment ''world.mp4'')) [] (4, 4) = (4, 4)"
    and wide: "find_closest_exact_window example_environment
       (timestamps (open_File_Source example_environment ''world.mp4'')) [] (1, 13) = (1, 13)"
    by (simp_all add: example_environment_def)
  have many: "2 < length (progress_events (export_processed_h264 example_environment []
      ''world.mp4'' ''scene.mp4'' (1, 13) (\<lambda>cap frame. index frame)))"
    by code_simp
  from progress_division_defined [OF single, of "''scene.mp4''" "\<lambda>cap frame. index frame"]
    progress_division_defined [OF wide, of "''scene.mp4''" "\<lambda>cap frame. index frame"]
    single wide many
  show ?thesis by simp
qed

section \<open>The plugin\<close>

text \<open>
  Claim C7. On a recording directory without any file for the input name,
  \<^verbatim>\<open>add_export_job\<close> does not report a failure event: the indexing \<^verbatim>\<open>[...][0]\<close> of the
  empty list of candidates raises \<^verbatim>\<open>IndexError\<close>, which leaves the call.
\<close>

theorem add_export_job_without_source_raises:
  "fst (add_export_job example_filesystem example_plugin (0, 2) ''/recordings/001/exports''
          ''iMotions'' ''eye1'' ''scene'' ()) = Inl IndexError"
  by (simp add: add_export_job_def example_filesystem_def example_plugin_def
      new_VideoExporter_def get_recording_start_date_def os_path_join_def replace_char_def
      makedirs_exist_ok_def Let_def)





lemma recent_events_loop_step:
  "snd (recent_events_loop ((n, t) # rest) shown) =
     snd (recent_events_loop rest
       (if canceled t then (''Export has been canceled'', 0)
        else if unfetched t = [] then shown else last (unfetched t)))"
  by (simp add: fetch_def Let_def split: prod.splits)

lemma recent_events_loop_append:
  "snd (recent_events_loop (before @ rest) shown) =
     snd (recent_events_loop rest (snd (recent_events_loop before shown)))"
proof (induction before arbitrary: shown)
  case Nil
  show ?case by simp
next
  case (Cons nt before)
  obtain n t where "nt = (n, t)" by (cases nt)
  with Cons.IH show ?case
    by (simp only: append_Cons recent_events_loop_step)
qed

lemma recent_events_loop_quiet:
  "\<forall>(n, t) \<in> set tasks. unfetched t = [] \<and> \<not> canceled t \<Longrightarrow>
     snd (recent_events_loop tasks shown) = shown"
proof (induction tasks)
  case Nil
  show ?case by simp
next
  case (Cons nt tasks)
  obtain n t where nt: "nt = (n, t)" by (cases nt)
  with Cons.prems have "unfetched t = []" "\<not> canceled t" by simp_all
  moreover from Cons have "snd (recent_events_loop tasks shown) = shown" by simp
  ultimately show ?case unfolding nt recent_events_loop_step by simp
qed

lemma recent_events_shown:
  "status (recent_events self ev) =
     fst (snd (recent_events_loop (export_tasks self) (status self, progress self)))"
  "progress (recent_events self ev) =
     snd (snd (recent_events_loop (export_tasks self) (status self, progress self)))"
  by (simp_all add: recent_events_def Let_def split: prod.splits)

text \<open>
  Claim C10. A call of \<^verbatim>\<open>recent_events\<close> leaves \<^verbatim>\<open>status\<close> and \<^verbatim>\<open>progress\<close> as they were
  when no tracked task has new events or is cancelled; a task without new events that
  is not cancelled contributes nothing to the call, wherever it stands in the task list;
  and a single tracked task overwrites the two fields with its last new event, or, when
  it is cancelled, with the cancellation message and 0.
\<close>

theorem recent_events_frame:
  "((\<forall>(n, t) \<in> set (export_tasks self). fst (fetch t) = [] \<and> \<not> canceled t) \<longrightarrow>
      status (recent_events self ev) = status self
      \<and> progress (recent_events self ev) = progress self)
   \<and> (fst (fetch task) = [] \<and> \<not> canceled task \<longrightarrow>
      status (recent_events (self\<lparr>export_tasks := before @ (name, task) # rest\<rparr>) ev) =
        status (recent_events (self\<lparr>export_tasks := before @ rest\<rparr>) ev)
      \<and> progress (recent_events (self\<lparr>export_tasks := before @ (name, task) # rest\<rparr>) ev) =
        progress (recent_events (self\<lparr>export_tasks := before @ rest\<rparr>) ev))
   \<and> (export_tasks self = [(name, task)] \<longrightarrow>
      (status (recent_events self ev), progress (recent_events self ev)) =
        (if canceled task then (''Export has been canceled'', 0)
         else if fst (fetch task) = [] then (status self, progress self)
         else last (fst (fetch task))))"
proof (intro conjI impI)
  assume "\<forall>(n, t) \<in> set (export_tasks self). fst (fetch t) = [] \<and> \<not> canceled t"
  then have "\<forall>(n, t) \<in> set (export_tasks self). unfetched t = [] \<and> \<not> canceled t"
    by (simp add: fetch_def)
  then have "snd (recent_events_loop (export_tasks self) (status self, progress self)) =
      (status self, progress self)"
    by (rule recent_events_loop_quiet)
  then show "status (recent_events self ev) = status self"
    and "progress (recent_events self ev) = progress self"
    by (simp_all add: recent_events_shown)
next
  assume quiet: "fst (fetch task) = [] \<and> \<not> canceled task"
  let ?with = "self\<lparr>export_tasks := before @ (name, task) # rest\<rparr>"
  let ?without = "self\<lparr>export_tasks := before @ rest\<rparr>"
  from quiet have "snd (recent_events_loop (before @ (name, task) # rest) (status self, progress self))
      = snd (recent_events_loop (before @ rest) (status self, progress self))"
    unfolding recent_events_loop_append [of before] recent_events_loop_step
    by (simp add: fetch_def)
  then show "status (recent_events ?with ev) = status (recent_events ?without ev)"
    and "progress (recent_events ?with ev) = progress (recent_events ?without ev)"
    by (simp_all add: recent_events_shown)
next
  assume "export_tasks self = [(name, task)]"
  then show "(status (recent_events self ev), progress (recent_events self ev)) =
        (if canceled task then (''Export has been canceled'', 0)
         else if fst (fetch task) = [] then (status self, progress self)
         else last (fst (fetch task)))"
    unfolding recent_events_shown recent_events_loop_step by (simp add: fetch_def)
qed

theorem recent_events_frame_witness:
  "export_tasks waiting_plugin = [(''taskname'', quiet_task)]
   \<and> fst (fetch quiet_task) = [] \<and> \<not> canceled quiet_task
   \<and> status waiting_plugin = ''Converting video'' \<and> progress waiting_plugin = 55
   \<and> status (recent_events waiting_plugin ()) = ''Converting video''
   \<and> progress (recent_events waiting_plugin ()) = 55
   \<and> status (recent_events
        (waiting_plugin\<lparr>export_tasks := [(''taskname'', reporting_task)], progress := 30\<rparr>) ())
        = ''Converting video''
   \<and> progress (recent_events
        (waiting_plugin\<lparr>export_tasks := [(''taskname'', reporting_task)], progress := 30\<rparr>) ())
        = 85
   \<and> status (recent_events
        (waiting_plugin\<lparr>export_tasks := [(''taskname'', reporting_task\<lparr>canceled := True\<rparr>)]\<rparr>) ())
        = ''Export has been canceled''
   \<and> progress (recent_events
        (waiting_plugin\<lparr>export_tasks := [(''taskname'', reporting_task\<lparr>canceled := True\<rparr>)]\<rparr>) ())
        = 0"
proof -
  have q: "export_tasks waiting_plugin = [(''taskname'', quiet_task)]"
    "fst (fetch quiet_task) = []" "\<not> canceled quiet_task"
    "status waiting_plugin = ''Converting video''" "progress waiting_plugin = 55"
    by (simp_all add: waiting_plugin_def quiet_task_def new_Task_Proxy_def fetch_def)
  have r: "fst (fetch reporting_task) = [(''Converting video'', 55), (''Converting video'', 85)]"
    "\<not> canceled reporting_task"
    by (simp_all add: reporting_task_def quiet_task_def new_Task_Proxy_def fetch_def)
  from recent_events_frame [where self = waiting_plugin and ev = "()" and task = quiet_task
      and name = "''taskname''" and before = "[]" and rest = "[]"]
    recent_events_frame [where self = "waiting_plugin\<lparr>export_tasks :=
        [(''taskname'', reporting_task)], progress := 30\<rparr>" and ev = "()"
      and task = reporting_task and name = "''taskname''" and before = "[]" and rest = "[]"]
    recent_events_frame [where self = "waiting_plugin\<lparr>export_tasks :=
        [(''taskname'', reporting_task\<lparr>canceled := True\<rparr>)]\<rparr>" and ev = "()"
      and task = "reporting_task\<lparr>canceled := True\<rparr>" and name = "''taskname''"
      and before = "[]" and rest = "[]"]
    q r
  show ?thesis by simp
qed

end
